theory Spec2Isabelle
  imports Main "HOL-Library.Word"
begin

unbundle bit_operations_syntax

section \<open>The PolicyClaim contract (Solidity 0.8.20)\<close>

subsection \<open>Value types and checked arithmetic\<close>

type_synonym uint256 = "256 word"
type_synonym bytes32 = "256 word"
type_synonym address = "160 word"
type_synonym byte = "8 word"

text \<open>
  A failed call either reverts with the message of the \<open>require\<close> that failed, or
  panics with the compiler's code: 0x11 (17) for arithmetic overflow, 0x12 (18) for
  division by zero. Solidity 0.8 checks every \<open>+\<close>, \<open>*\<close> and \<open>/\<close> on \<open>uint256\<close>.
\<close>

datatype error = Revert string | Panic nat

definition checked_mul :: "uint256 \<Rightarrow> uint256 \<Rightarrow> error + uint256" where
  "checked_mul a b = (if unat a * unat b < 2 ^ 256 then Inr (a * b) else Inl (Panic 17))"

definition checked_div :: "uint256 \<Rightarrow> uint256 \<Rightarrow> error + uint256" where
  "checked_div a b = (if b = 0 then Inl (Panic 18) else Inr (a div b))"

definition checked_inc :: "uint256 \<Rightarrow> error + uint256" where
  "checked_inc a = (if unat a + 1 < 2 ^ 256 then Inr (a + 1) else Inl (Panic 17))"

subsection \<open>abi.encodePacked\<close>

text \<open>
  The packed encoding writes a value of a fixed-width type as its bytes, most
  significant first (20 for an address, 32 for \<open>uint256\<close> and \<open>bytes32\<close>), and a
  string as its bytes alone: no length, no padding, no type tag. The encoding of a
  tuple is the concatenation of the encodings of its components.
\<close>

definition be_bytes :: "nat \<Rightarrow> 'a::len word \<Rightarrow> byte list" where
  "be_bytes n w = map (\<lambda>i. ucast (drop_bit (8 * i) w)) (rev [0..<n])"

definition string_bytes :: "string \<Rightarrow> byte list" where
  "string_bytes s = map (\<lambda>c. of_nat (of_char c)) s"

datatype abi_value =
    AAddress address
  | AUint256 uint256
  | ABytes32 bytes32
  | AString string

fun encode_value :: "abi_value \<Rightarrow> byte list" where
  "encode_value (AAddress a) = be_bytes 20 a"
| "encode_value (AUint256 n) = be_bytes 32 n"
| "encode_value (ABytes32 b) = be_bytes 32 b"
| "encode_value (AString s) = string_bytes s"

definition encodePacked :: "abi_value list \<Rightarrow> byte list" where
  "encodePacked vs = concat (map encode_value vs)"

subsection \<open>Storage\<close>

datatype ClaimStatus = Pending | Approved | Rejected

record Policy =
  policyId :: bytes32
  policyHolder :: address
  insuredAmount :: uint256
  premium :: uint256
  startDate :: uint256
  endDate :: uint256
  isActive :: bool
  policyHash :: string

text \<open>The claim's field \<open>policyId\<close> is \<open>claimPolicyId\<close> here: a record field is a
  constant, and \<open>policyId\<close> is the policy's.\<close>

record Claim =
  claimId :: bytes32
  claimPolicyId :: bytes32
  claimant :: address
  claimAmount :: uint256
  claimDescription :: string
  submissionDate :: uint256
  status :: ClaimStatus
  rejectionReason :: string

datatype event =
    PolicyRegistered bytes32 address uint256 uint256 uint256 uint256
  | ClaimSubmitted bytes32 bytes32 address uint256 string
  | ClaimProcessed bytes32 bytes32 ClaimStatus string
  | PolicyDeactivated bytes32 address

text \<open>
  A Solidity mapping is total: a key never written reads as the zero value of the value
  type. The contract tests existence by the id stored inside the struct.
\<close>

definition zero_Policy :: Policy where
  "zero_Policy = \<lparr>policyId = 0, policyHolder = 0, insuredAmount = 0, premium = 0,
     startDate = 0, endDate = 0, isActive = False, policyHash = []\<rparr>"

definition zero_Claim :: Claim where
  "zero_Claim = \<lparr>claimId = 0, claimPolicyId = 0, claimant = 0, claimAmount = 0,
     claimDescription = [], submissionDate = 0, status = Pending, rejectionReason = []\<rparr>"

record contract =
  insurer :: address
  totalPolicies :: uint256
  totalClaims :: uint256
  policies :: "bytes32 \<Rightarrow> Policy"
  claims :: "bytes32 \<Rightarrow> Claim"
  userPolicies :: "address \<Rightarrow> bytes32 list"
  userClaims :: "address \<Rightarrow> bytes32 list"
  events :: "event list"

text \<open>What a call sees of its transaction: \<open>msg.sender\<close> and \<open>block.timestamp\<close>.\<close>

record env =
  msg_sender :: address
  block_timestamp :: uint256

definition MINIMUM_PREMIUM :: uint256 where
  "MINIMUM_PREMIUM = 10000000000000000"

definition MAXIMUM_CLAIM_RATIO :: uint256 where
  "MAXIMUM_CLAIM_RATIO = 80"

definition constructor :: "env \<Rightarrow> contract" where
  "constructor e = \<lparr>insurer = msg_sender e, totalPolicies = 0, totalClaims = 0,
     policies = (\<lambda>_. zero_Policy), claims = (\<lambda>_. zero_Claim),
     userPolicies = (\<lambda>_. []), userClaims = (\<lambda>_. []), events = []\<rparr>"

subsection \<open>Modifiers\<close>

text \<open>A modifier returns the error of its first failing \<open>require\<close>, if any.\<close>

definition onlyInsurer :: "env \<Rightarrow> contract \<Rightarrow> error option" where
  "onlyInsurer e s =
     (if msg_sender e = insurer s then None
      else Some (Revert ''Only insurer can perform this action''))"

definition validPolicy :: "bytes32 \<Rightarrow> contract \<Rightarrow> error option" where
  "validPolicy pid s =
     (if policyId (policies s pid) = 0 then Some (Revert ''Policy does not exist'')
      else if \<not> isActive (policies s pid) then Some (Revert ''Policy is not active'')
      else None)"

definition validClaim :: "bytes32 \<Rightarrow> contract \<Rightarrow> error option" where
  "validClaim cid s =
     (if claimId (claims s cid) = 0 then Some (Revert ''Claim does not exist'')
      else None)"

subsection \<open>The functions\<close>

text \<open>
  A function body returns its outcome together with the storage as it stands where the
  body stops: after all its writes when it returns, and after the writes made so far
  when it fails. The hash \<open>keccak256\<close> is a parameter.
\<close>

definition policy_preimage ::
  "address \<Rightarrow> uint256 \<Rightarrow> uint256 \<Rightarrow> uint256 \<Rightarrow> uint256 \<Rightarrow> uint256 \<Rightarrow> uint256 \<Rightarrow> byte list" where
  "policy_preimage holder insured prem start ed now counter =
     encodePacked [AAddress holder, AUint256 insured, AUint256 prem, AUint256 start,
                   AUint256 ed, AUint256 now, AUint256 counter]"

definition claim_preimage ::
  "bytes32 \<Rightarrow> address \<Rightarrow> uint256 \<Rightarrow> string \<Rightarrow> uint256 \<Rightarrow> uint256 \<Rightarrow> byte list" where
  "claim_preimage pid sender amount description now counter =
     encodePacked [ABytes32 pid, AAddress sender, AUint256 amount, AString description,
                   AUint256 now, AUint256 counter]"

definition registerPolicy ::
  "(byte list \<Rightarrow> bytes32) \<Rightarrow> env \<Rightarrow> address \<Rightarrow> uint256 \<Rightarrow> uint256 \<Rightarrow> uint256 \<Rightarrow> uint256
     \<Rightarrow> string \<Rightarrow> contract \<Rightarrow> (error + bytes32) \<times> contract" where
  "registerPolicy keccak256 e argPolicyHolder argInsuredAmount argPremium argStartDate
       argEndDate argPolicyHash s =
     (case onlyInsurer e s of Some err \<Rightarrow> (Inl err, s) | None \<Rightarrow>
      if argPolicyHolder = 0 then (Inl (Revert ''Invalid policy holder address''), s)
      else if \<not> argInsuredAmount > 0
        then (Inl (Revert ''Insured amount must be greater than 0''), s)
      else if \<not> argPremium \<ge> MINIMUM_PREMIUM
        then (Inl (Revert ''Premium below minimum required''), s)
      else if \<not> argEndDate > argStartDate
        then (Inl (Revert ''End date must be after start date''), s)
      else if \<not> argEndDate > block_timestamp e
        then (Inl (Revert ''End date must be in the future''), s)
      else
        let pid = keccak256 (policy_preimage argPolicyHolder argInsuredAmount argPremium
                    argStartDate argEndDate (block_timestamp e) (totalPolicies s));
            s1 = s\<lparr>policies := (policies s)(pid :=
                    \<lparr>policyId = pid, policyHolder = argPolicyHolder,
                     insuredAmount = argInsuredAmount, premium = argPremium,
                     startDate = argStartDate, endDate = argEndDate, isActive = True,
                     policyHash = argPolicyHash\<rparr>)\<rparr>;
            s2 = s1\<lparr>userPolicies := (userPolicies s1)(argPolicyHolder :=
                    userPolicies s1 argPolicyHolder @ [pid])\<rparr>
        in case checked_inc (totalPolicies s2) of
             Inl err \<Rightarrow> (Inl err, s2)
           | Inr n \<Rightarrow>
               let s3 = s2\<lparr>totalPolicies := n\<rparr>;
                   s4 = s3\<lparr>events := events s3 @
                          [PolicyRegistered pid argPolicyHolder argInsuredAmount argPremium
                             argStartDate argEndDate]\<rparr>
               in (Inr pid, s4))"

definition submitClaim ::
  "(byte list \<Rightarrow> bytes32) \<Rightarrow> env \<Rightarrow> bytes32 \<Rightarrow> uint256 \<Rightarrow> string \<Rightarrow> contract
     \<Rightarrow> (error + bytes32) \<times> contract" where
  "submitClaim keccak256 e argPolicyId argClaimAmount argClaimDescription s =
     (case validPolicy argPolicyId s of Some err \<Rightarrow> (Inl err, s) | None \<Rightarrow>
      let policy = policies s argPolicyId in
      if msg_sender e \<noteq> policyHolder policy
        then (Inl (Revert ''Only policy holder can submit claims''), s)
      else if \<not> argClaimAmount > 0
        then (Inl (Revert ''Claim amount must be greater than 0''), s)
      else if \<not> block_timestamp e \<ge> startDate policy
        then (Inl (Revert ''Policy has not started yet''), s)
      else if \<not> block_timestamp e \<le> endDate policy
        then (Inl (Revert ''Policy has expired''), s)
      else
        let cid = keccak256 (claim_preimage argPolicyId (msg_sender e) argClaimAmount
                    argClaimDescription (block_timestamp e) (totalClaims s));
            s1 = s\<lparr>claims := (claims s)(cid :=
                    \<lparr>claimId = cid, claimPolicyId = argPolicyId, claimant = msg_sender e,
                     claimAmount = argClaimAmount, claimDescription = argClaimDescription,
                     submissionDate = block_timestamp e, status = Pending,
                     rejectionReason = []\<rparr>)\<rparr>;
            s2 = s1\<lparr>userClaims := (userClaims s1)(msg_sender e :=
                    userClaims s1 (msg_sender e) @ [cid])\<rparr>
        in case checked_inc (totalClaims s2) of
             Inl err \<Rightarrow> (Inl err, s2)
           | Inr n \<Rightarrow>
               let s3 = s2\<lparr>totalClaims := n\<rparr>;
                   s4 = s3\<lparr>events := events s3 @
                          [ClaimSubmitted cid argPolicyId (msg_sender e) argClaimAmount
                             argClaimDescription]\<rparr>
               in (Inr cid, s4))"

definition isPolicyValid :: "env \<Rightarrow> Policy \<Rightarrow> bool" where
  "isPolicyValid e policy \<longleftrightarrow>
     isActive policy \<and> block_timestamp e \<ge> startDate policy
       \<and> block_timestamp e \<le> endDate policy"

definition isAmountValid :: "Claim \<Rightarrow> Policy \<Rightarrow> bool" where
  "isAmountValid claim policy \<longleftrightarrow> claimAmount claim \<le> insuredAmount policy"

definition processClaim :: "env \<Rightarrow> bytes32 \<Rightarrow> contract \<Rightarrow> (error + bool) \<times> contract" where
  "processClaim e argClaimId s =
     (case validClaim argClaimId s of Some err \<Rightarrow> (Inl err, s) | None \<Rightarrow>
      let claim = claims s argClaimId;
          policy = policies s (claimPolicyId claim)
      in
      if status claim \<noteq> Pending then (Inl (Revert ''Claim already processed''), s)
      else
        let polValid = isPolicyValid e policy;
            amtValid = isAmountValid claim policy
        in case checked_mul (claimAmount claim) 100 of
             Inl err \<Rightarrow> (Inl err, s)
           | Inr scaled \<Rightarrow>
         (case checked_div scaled (insuredAmount policy) of
             Inl err \<Rightarrow> (Inl err, s)
           | Inr ratio \<Rightarrow>
               let amtReasonable = (ratio \<le> MAXIMUM_CLAIM_RATIO);
                   approved = (polValid \<and> amtValid \<and> amtReasonable);
                   claim1 =
                     (if approved then claim\<lparr>status := Approved\<rparr>
                      else
                        let c = claim\<lparr>status := Rejected\<rparr> in
                        if \<not> polValid
                          then c\<lparr>rejectionReason := ''Policy is not valid or has expired''\<rparr>
                        else if \<not> amtValid
                          then c\<lparr>rejectionReason := ''Claim amount exceeds insured amount''\<rparr>
                        else if \<not> amtReasonable
                          then c\<lparr>rejectionReason :=
                                   ''Claim amount exceeds maximum allowed ratio''\<rparr>
                        else c);
                   s1 = s\<lparr>claims := (claims s)(argClaimId := claim1)\<rparr>;
                   s2 = s1\<lparr>events := events s1 @
                          [ClaimProcessed argClaimId (claimPolicyId claim1) (status claim1)
                             (rejectionReason claim1)]\<rparr>
               in (Inr approved, s2)))"

definition deactivatePolicy :: "env \<Rightarrow> bytes32 \<Rightarrow> contract \<Rightarrow> (error + unit) \<times> contract" where
  "deactivatePolicy e argPolicyId s =
     (case onlyInsurer e s of Some err \<Rightarrow> (Inl err, s) | None \<Rightarrow>
      case validPolicy argPolicyId s of Some err \<Rightarrow> (Inl err, s) | None \<Rightarrow>
        let s1 = s\<lparr>policies := (policies s)(argPolicyId :=
                    (policies s argPolicyId)\<lparr>isActive := False\<rparr>)\<rparr>;
            s2 = s1\<lparr>events := events s1 @
                   [PolicyDeactivated argPolicyId (policyHolder (policies s1 argPolicyId))]\<rparr>
        in (Inr (), s2))"

definition getContractStats :: "contract \<Rightarrow> uint256 \<times> uint256 \<times> uint256" where
  "getContractStats s =
     (let activePolicies = 0 in (totalPolicies s, totalClaims s, activePolicies))"

definition isPolicyValidForClaims :: "env \<Rightarrow> bytes32 \<Rightarrow> contract \<Rightarrow> bool" where
  "isPolicyValidForClaims e argPolicyId s =
     (let policy = policies s argPolicyId
      in policyId policy \<noteq> 0 \<and> isActive policy
           \<and> block_timestamp e \<ge> startDate policy \<and> block_timestamp e \<le> endDate policy)"

subsection \<open>Transactions\<close>

text \<open>
  A transaction that fails is rolled back by the EVM: the storage after it is the
  storage before it, whatever the body had written.
\<close>

datatype call =
    RegisterPolicy address uint256 uint256 uint256 uint256 string
  | SubmitClaim bytes32 uint256 string
  | ProcessClaim bytes32
  | DeactivatePolicy bytes32

definition commit :: "contract \<Rightarrow> (error + 'a) \<times> contract \<Rightarrow> contract" where
  "commit s r = (case fst r of Inl _ \<Rightarrow> s | Inr _ \<Rightarrow> snd r)"

fun transact :: "(byte list \<Rightarrow> bytes32) \<Rightarrow> env \<Rightarrow> call \<Rightarrow> contract \<Rightarrow> contract" where
  "transact keccak256 e (RegisterPolicy h i p sd ed ph) s =
     commit s (registerPolicy keccak256 e h i p sd ed ph s)"
| "transact keccak256 e (SubmitClaim pid a d) s = commit s (submitClaim keccak256 e pid a d s)"
| "transact keccak256 e (ProcessClaim cid) s = commit s (processClaim e cid s)"
| "transact keccak256 e (DeactivatePolicy pid) s = commit s (deactivatePolicy e pid s)"

fun run :: "(byte list \<Rightarrow> bytes32) \<Rightarrow> (env \<times> call) list \<Rightarrow> contract \<Rightarrow> contract" where
  "run keccak256 [] s = s"
| "run keccak256 (ec # ecs) s = run keccak256 ecs (transact keccak256 (fst ec) (snd ec) s)"

inductive reachable :: "(byte list \<Rightarrow> bytes32) \<Rightarrow> contract \<Rightarrow> bool"
  for keccak256 :: "byte list \<Rightarrow> bytes32" where
    deployed: "reachable keccak256 (constructor e)"
  | step: "reachable keccak256 s \<Longrightarrow> reachable keccak256 (transact keccak256 e c s)"

subsection \<open>The decision rule as the specification words it\<close>

text \<open>
  The specification's ratio test is the floor of \<open>amount \<times> 100 / insuredAmount\<close> on
  unbounded numbers; \<open>spec_approved\<close> is its conjunction of the three conditions, and
  \<open>first_failing_reason\<close> the message of the first condition that fails, in the order
  policy validity, amount validity, ratio.
\<close>

definition spec_isAmountReasonable :: "Claim \<Rightarrow> Policy \<Rightarrow> bool" where
  "spec_isAmountReasonable claim policy \<longleftrightarrow>
     unat (claimAmount claim) * 100 div unat (insuredAmount policy) \<le> 80"

definition spec_approved :: "env \<Rightarrow> Claim \<Rightarrow> Policy \<Rightarrow> bool" where
  "spec_approved e claim policy \<longleftrightarrow>
     isPolicyValid e policy \<and> isAmountValid claim policy \<and> spec_isAmountReasonable claim policy"

definition first_failing_reason :: "env \<Rightarrow> Claim \<Rightarrow> Policy \<Rightarrow> string" where
  "first_failing_reason e claim policy =
     (if \<not> isPolicyValid e policy then ''Policy is not valid or has expired''
      else if \<not> isAmountValid claim policy then ''Claim amount exceeds insured amount''
      else ''Claim amount exceeds maximum allowed ratio'')"

subsection \<open>An invariant of the storage, and a ledger to compute on\<close>

text \<open>
  Every policy that exists has a positive insured amount, and so has the policy of every
  claim that exists. \<open>registerPolicy\<close> and \<open>submitClaim\<close> establish it.
\<close>

definition ledger_inv :: "contract \<Rightarrow> bool" where
  "ledger_inv s \<longleftrightarrow>
     (\<forall>p. policyId (policies s p) \<noteq> 0 \<longrightarrow> insuredAmount (policies s p) \<noteq> 0) \<and>
     (\<forall>c. claimId (claims s c) \<noteq> 0 \<longrightarrow>
            insuredAmount (policies s (claimPolicyId (claims s c))) \<noteq> 0)"

text \<open>
  Two ledgers to compute on. In \<open>demo_registered\<close> the insurer (address 1) has deployed
  the contract and, at time 5, registered one policy for holder 2, in force from time 10
  to time 100. In \<open>demo_ledger\<close> the holder has then submitted one claim at time 50. The
  hash is the constant 1 here, so both ids are 1.
\<close>

definition demo_registered :: "uint256 \<Rightarrow> contract" where
  "demo_registered insured =
     run (\<lambda>_. 1)
       [(\<lparr>msg_sender = 1, block_timestamp = 5\<rparr>,
           RegisterPolicy 2 insured MINIMUM_PREMIUM 10 100 ''doc'')]
       (constructor \<lparr>msg_sender = 1, block_timestamp = 0\<rparr>)"

definition demo_ledger :: "uint256 \<Rightarrow> uint256 \<Rightarrow> contract" where
  "demo_ledger insured amount =
     run (\<lambda>_. 1)
       [(\<lparr>msg_sender = 2, block_timestamp = 50\<rparr>, SubmitClaim 1 amount ''visit'')]
       (demo_registered insured)"


section \<open>The mirror ledger (fabric-simulator.js) and the bridge\<close>

subsection \<open>JavaScript values\<close>

text \<open>
  The values that reach the ledger are primitives: strings, numbers, booleans, \<open>null\<close>
  and \<open>undefined\<close>. Numbers are only parsed, stored and printed, so their type is a
  parameter \<open>'n\<close>, with \<open>parseFloat\<close> and the number's \<open>toString\<close> as parameters of the
  functions that use them. An object is a map from property names to values; reading a
  property that is absent gives \<open>undefined\<close>.
\<close>

datatype 'n jsval = JUndefined | JNull | JString string | JNumber 'n | JBool bool

type_synonym 'n obj = "string \<rightharpoonup> 'n jsval"

definition get_prop :: "'n obj \<Rightarrow> string \<Rightarrow> 'n jsval" where
  "get_prop ob k = (case ob k of None \<Rightarrow> JUndefined | Some v \<Rightarrow> v)"

fun to_str :: "('n \<Rightarrow> string) \<Rightarrow> 'n jsval \<Rightarrow> string" where
  "to_str numToString JUndefined = ''undefined''"
| "to_str numToString JNull = ''null''"
| "to_str numToString (JString s) = s"
| "to_str numToString (JNumber n) = numToString n"
| "to_str numToString (JBool b) = (if b then ''true'' else ''false'')"

fun arg :: "'n jsval list \<Rightarrow> nat \<Rightarrow> 'n jsval" where
  "arg args i = (if i < length args then args ! i else JUndefined)"

datatype js_error = Error string

record 'n ledger_record =
  rec_type :: string
  rec_id :: "'n jsval"
  rec_data :: "'n obj"

type_synonym 'n ledger = "'n jsval \<rightharpoonup> 'n ledger_record"

subsection \<open>The simulator's chaincode functions\<close>

text \<open>
  Each \<open>new Date().toISOString()\<close> is a reading of the clock; the readings are
  parameters, in the order the function takes them. A function returns the record it
  built and the ledger after \<open>this.ledger.set\<close>.
\<close>

definition createPatientRecord ::
  "string \<Rightarrow> string \<Rightarrow> 'n obj \<Rightarrow> 'n ledger \<Rightarrow> 'n ledger_record \<times> 'n ledger" where
  "createPatientRecord now1 now2 data ledger =
     (let record = \<lparr>rec_type = ''PatientRecord'', rec_id = get_prop data ''patientId'',
            rec_data = data(''status'' \<mapsto> JString ''pending'',
                            ''createdAt'' \<mapsto> JString now1,
                            ''updatedAt'' \<mapsto> JString now2)\<rparr>
      in (record, ledger(get_prop data ''patientId'' \<mapsto> record)))"

definition createClaimRequest ::
  "string \<Rightarrow> string \<Rightarrow> 'n obj \<Rightarrow> 'n ledger \<Rightarrow> 'n ledger_record \<times> 'n ledger" where
  "createClaimRequest now1 now2 data ledger =
     (let claim = \<lparr>rec_type = ''ClaimRequest'', rec_id = get_prop data ''claimId'',
            rec_data = data(''status'' \<mapsto> JString ''submitted'',
                            ''createdAt'' \<mapsto> JString now1,
                            ''updatedAt'' \<mapsto> JString now2)\<rparr>
      in (claim, ledger(get_prop data ''claimId'' \<mapsto> claim)))"

definition updateClaimStatus ::
  "('n \<Rightarrow> string) \<Rightarrow> string \<Rightarrow> 'n jsval \<Rightarrow> 'n jsval \<Rightarrow> 'n jsval \<Rightarrow> 'n ledger
     \<Rightarrow> js_error + 'n ledger_record \<times> 'n ledger" where
  "updateClaimStatus numToString now1 cid newStatus ethereumTxHash ledger =
     (case ledger cid of
        None \<Rightarrow> Inl (Error (''Claim '' @ to_str numToString cid @ '' not found''))
      | Some claim \<Rightarrow>
          let claim1 = claim\<lparr>rec_data := (rec_data claim)(''status'' \<mapsto> newStatus,
                              ''ethereumTxHash'' \<mapsto> ethereumTxHash,
                              ''updatedAt'' \<mapsto> JString now1)\<rparr>
          in Inr (claim1, ledger(cid \<mapsto> claim1)))"

definition verifyPolicyWithEthereum ::
  "('n \<Rightarrow> string) \<Rightarrow> string \<Rightarrow> 'n obj \<Rightarrow> 'n ledger \<Rightarrow> 'n ledger_record \<times> 'n ledger" where
  "verifyPolicyWithEthereum numToString now1 data ledger =
     (let verification =
            \<lparr>rec_type = ''PolicyVerification'',
             rec_id = JString (''VERIFICATION_'' @ to_str numToString (get_prop data ''policyId'')
                        @ ''_'' @ to_str numToString (get_prop data ''patientId'')),
             rec_data = data(''verifiedAt'' \<mapsto> JString now1)\<rparr>
      in (verification, ledger(rec_id verification \<mapsto> verification)))"

definition getPatientRecord ::
  "('n \<Rightarrow> string) \<Rightarrow> 'n jsval \<Rightarrow> 'n ledger \<Rightarrow> js_error + 'n ledger_record" where
  "getPatientRecord numToString pid ledger =
     (case ledger pid of
        None \<Rightarrow> Inl (Error (''Patient record '' @ to_str numToString pid @ '' not found''))
      | Some record \<Rightarrow>
          if rec_type record \<noteq> ''PatientRecord''
          then Inl (Error (''Patient record '' @ to_str numToString pid @ '' not found''))
          else Inr record)"

definition getClaimRequest ::
  "('n \<Rightarrow> string) \<Rightarrow> 'n jsval \<Rightarrow> 'n ledger \<Rightarrow> js_error + 'n ledger_record" where
  "getClaimRequest numToString cid ledger =
     (case ledger cid of
        None \<Rightarrow> Inl (Error (''Claim request '' @ to_str numToString cid @ '' not found''))
      | Some claim \<Rightarrow>
          if rec_type claim \<noteq> ''ClaimRequest''
          then Inl (Error (''Claim request '' @ to_str numToString cid @ '' not found''))
          else Inr claim)"

text \<open>
  \<open>invokeChaincode\<close> builds the object of each function from the argument array; an
  index beyond the array reads as \<open>undefined\<close>, and the property is present all the same.
\<close>

definition invokeChaincode ::
  "('n jsval \<Rightarrow> 'n) \<Rightarrow> ('n \<Rightarrow> string) \<Rightarrow> string \<Rightarrow> string \<Rightarrow> string \<Rightarrow> 'n jsval list
     \<Rightarrow> 'n ledger \<Rightarrow> js_error + 'n ledger_record \<times> 'n ledger" where
  "invokeChaincode parseFloat numToString now1 now2 func args ledger =
     (if func = ''CreatePatientRecord'' then
        Inr (createPatientRecord now1 now2
          [''patientId'' \<mapsto> arg args 0, ''hospitalId'' \<mapsto> arg args 1,
           ''insuranceId'' \<mapsto> arg args 2, ''recordHash'' \<mapsto> arg args 3,
           ''diagnosis'' \<mapsto> arg args 4, ''treatment'' \<mapsto> arg args 5,
           ''cost'' \<mapsto> JNumber (parseFloat (arg args 6))] ledger)
      else if func = ''CreateClaimRequest'' then
        Inr (createClaimRequest now1 now2
          [''claimId'' \<mapsto> arg args 0, ''patientId'' \<mapsto> arg args 1,
           ''hospitalId'' \<mapsto> arg args 2, ''insuranceId'' \<mapsto> arg args 3,
           ''description'' \<mapsto> arg args 4, ''policyId'' \<mapsto> arg args 5,
           ''amount'' \<mapsto> JNumber (parseFloat (arg args 6))] ledger)
      else if func = ''UpdateClaimStatus'' then
        updateClaimStatus numToString now1 (arg args 0) (arg args 1) (arg args 2) ledger
      else if func = ''VerifyPolicyWithEthereum'' then
        Inr (verifyPolicyWithEthereum numToString now1
          [''policyId'' \<mapsto> arg args 0, ''patientId'' \<mapsto> arg args 1,
           ''isValid'' \<mapsto> JBool (arg args 2 = JString ''true''),
           ''coverageAmount'' \<mapsto> JNumber (parseFloat (arg args 3)),
           ''expiryDate'' \<mapsto> arg args 4, ''ethereumTxHash'' \<mapsto> arg args 5] ledger)
      else Inl (Error (''Unknown function: '' @ func)))"

subsection \<open>The bridge (EthereumFabricBridge.syncPolicyToFabric)\<close>

text \<open>
  The bridge and the simulator talk JSON over HTTP: the bridge posts the argument array
  as JSON and returns the \<open>result\<close> of the JSON response. In an array, JSON writes
  \<open>undefined\<close> as \<open>null\<close>; as the value of a property it leaves the property out. What
  a number is after the round trip (\<open>null\<close> for NaN and the infinities) is the parameter
  \<open>jsonNumber\<close>. Strings, booleans and \<open>null\<close> come back as they were.
\<close>

fun json_roundtrip :: "('n \<Rightarrow> 'n jsval) \<Rightarrow> 'n jsval \<Rightarrow> 'n jsval" where
  "json_roundtrip jsonNumber JUndefined = JNull"
| "json_roundtrip jsonNumber JNull = JNull"
| "json_roundtrip jsonNumber (JString s) = JString s"
| "json_roundtrip jsonNumber (JNumber n) = jsonNumber n"
| "json_roundtrip jsonNumber (JBool b) = JBool b"

definition json_object :: "('n \<Rightarrow> 'n jsval) \<Rightarrow> 'n obj \<Rightarrow> 'n obj" where
  "json_object jsonNumber ob =
     (\<lambda>k. case ob k of
            None \<Rightarrow> None
          | Some v \<Rightarrow> if v = JUndefined then None else Some (json_roundtrip jsonNumber v))"

definition json_record :: "('n \<Rightarrow> 'n jsval) \<Rightarrow> 'n ledger_record \<Rightarrow> 'n ledger_record" where
  "json_record jsonNumber r =
     \<lparr>rec_type = rec_type r,
      rec_id = (if rec_id r = JUndefined then JUndefined
                else json_roundtrip jsonNumber (rec_id r)),
      rec_data = json_object jsonNumber (rec_data r)\<rparr>"

text \<open>
  The bridge reads its own clock twice: for the expiry date, one year ahead, as an ISO
  string, and for the transaction reference \<open>ETH_TX_<Date.now()>\<close>. The ISO string is a
  parameter, \<open>Date.now()\<close> a number of milliseconds printed in decimal.
  \<open>true.toString()\<close> is \<open>true\<close> and \<open>(10000.00).toString()\<close> is \<open>10000\<close>. The request
  makes the simulator run \<open>invokeChaincode\<close> on the arguments as JSON delivers them, at
  the simulator's clock (\<open>serverNow\<close>). Should \<open>invokeChaincode\<close> throw, the simulator
  answers with status 500 and the bridge throws the HTTP client's error. The function
  returns what its caller gets, and the simulator's ledger after the request.
\<close>

function decimal :: "nat \<Rightarrow> string" where
  "decimal n = (if n < 10 then [char_of (48 + n)]
                else decimal (n div 10) @ [char_of (48 + n mod 10)])"
  by pat_completeness auto
termination
  by (relation "measure id") auto

definition syncPolicyToFabric ::
  "('n jsval \<Rightarrow> 'n) \<Rightarrow> ('n \<Rightarrow> string) \<Rightarrow> ('n \<Rightarrow> 'n jsval) \<Rightarrow> string \<Rightarrow> nat \<Rightarrow> string
     \<Rightarrow> 'n jsval \<Rightarrow> 'n jsval \<Rightarrow> 'n ledger \<Rightarrow> (js_error + 'n ledger_record) \<times> 'n ledger" where
  "syncPolicyToFabric parseFloat numToString jsonNumber expiryIso dateNow serverNow pid
       patientId ledger =
     (case invokeChaincode parseFloat numToString serverNow serverNow
             ''VerifyPolicyWithEthereum''
             (map (json_roundtrip jsonNumber)
                [pid, patientId, JString ''true'', JString ''10000'', JString expiryIso,
                 JString (''ETH_TX_'' @ decimal dateNow)]) ledger of
        Inl err \<Rightarrow> (Inl (Error ''Request failed with status code 500''), ledger)
      | Inr r \<Rightarrow> (Inr (json_record jsonNumber (fst r)), snd r))"


definition verification_id :: "('n \<Rightarrow> string) \<Rightarrow> 'n jsval \<Rightarrow> 'n jsval \<Rightarrow> 'n jsval" where
  "verification_id numToString pid patientId =
     JString (''VERIFICATION_'' @ to_str numToString pid @ ''_'' @ to_str numToString patientId)"

definition verification_data ::
  "('n jsval \<Rightarrow> 'n) \<Rightarrow> string \<Rightarrow> nat \<Rightarrow> string \<Rightarrow> 'n jsval \<Rightarrow> 'n jsval \<Rightarrow> 'n obj" where
  "verification_data parseFloat expiryIso dateNow serverNow pid patientId =
     [''policyId'' \<mapsto> pid, ''patientId'' \<mapsto> patientId, ''isValid'' \<mapsto> JBool True,
      ''coverageAmount'' \<mapsto> JNumber (parseFloat (JString ''10000'')),
      ''expiryDate'' \<mapsto> JString expiryIso,
      ''ethereumTxHash'' \<mapsto> JString (''ETH_TX_'' @ decimal dateNow),
      ''verifiedAt'' \<mapsto> JString serverNow]"

section \<open>Notions the statements use\<close>



text \<open>The string whose bytes are given.\<close>

definition bytes_string :: "byte list \<Rightarrow> string" where
  "bytes_string bs = map (\<lambda>b. char_of (unat b)) bs"

text \<open>
  A ledger in which a policy tuple and a claim tuple with the same preimage are both
  packed. The hash is the constant \<open>5 * 2 ^ 96\<close> here. The insurer (address 1) has
  registered a policy for holder 2, in force from time 10 to time 100, and the holder has
  submitted one claim, so that both counters are 1.
\<close>

definition demo_cross_hash :: "byte list \<Rightarrow> bytes32" where
  "demo_cross_hash bs = 5 * 2 ^ 96"

definition demo_cross_ledger :: contract where
  "demo_cross_ledger =
     run demo_cross_hash
       [(\<lparr>msg_sender = 1, block_timestamp = 5\<rparr>,
           RegisterPolicy 2 10 MINIMUM_PREMIUM 10 100 ''doc''),
        (\<lparr>msg_sender = 2, block_timestamp = 40\<rparr>,
           SubmitClaim (5 * 2 ^ 96) MINIMUM_PREMIUM ''visit'')]
       (constructor \<lparr>msg_sender = 1, block_timestamp = 0\<rparr>)"

section \<open>Properties of the contract\<close>

declare decimal.simps [simp del]

subsection \<open>Checked arithmetic\<close>


lemma checked_mul_100:
  "unat a * 100 < 2 ^ 256 \<Longrightarrow>
     checked_mul a 100 = Inr (a * 100) \<and> unat (a * 100) = unat a * 100"
  by (simp add: checked_mul_def unat_word_ariths)

lemma ratio_le_80:
  fixes a b :: uint256
  assumes "unat a * 100 < 2 ^ 256"
  shows "(a * 100) div b \<le> MAXIMUM_CLAIM_RATIO \<longleftrightarrow> unat a * 100 div unat b \<le> 80"
proof -
  have "unat ((a * 100) div b) = unat a * 100 div unat b"
    using assms by (simp add: unat_div unat_word_ariths)
  then show ?thesis
    by (simp add: word_le_nat_alt MAXIMUM_CLAIM_RATIO_def)
qed

subsection \<open>The invariant holds in every reachable state\<close>

lemma ledger_inv_constructor: "ledger_inv (constructor e)"
  by (simp add: ledger_inv_def constructor_def zero_Policy_def zero_Claim_def)

lemma ledger_inv_registerPolicy:
  "ledger_inv s \<Longrightarrow> registerPolicy k e h i p sd ed ph s = (Inr pid, s') \<Longrightarrow> ledger_inv s'"
  unfolding registerPolicy_def
  by (auto simp: ledger_inv_def Let_def word_greater_zero_iff
      split: option.splits if_splits sum.splits)

lemma ledger_inv_submitClaim:
  "ledger_inv s \<Longrightarrow> submitClaim k e pid a d s = (Inr cid, s') \<Longrightarrow> ledger_inv s'"
  unfolding submitClaim_def
  by (auto simp: ledger_inv_def Let_def validPolicy_def
      split: option.splits if_splits sum.splits)

lemma ledger_inv_processClaim:
  "ledger_inv s \<Longrightarrow> processClaim e cid s = (Inr b, s') \<Longrightarrow> ledger_inv s'"
  unfolding processClaim_def
  by (auto simp: ledger_inv_def Let_def split: option.splits if_splits sum.splits)

lemma ledger_inv_deactivatePolicy:
  "ledger_inv s \<Longrightarrow> deactivatePolicy e pid s = (Inr u, s') \<Longrightarrow> ledger_inv s'"
  unfolding deactivatePolicy_def
  by (auto simp: ledger_inv_def Let_def split: option.splits if_splits sum.splits)

lemma commit_cases:
  "commit s r = s \<or> (\<exists>v. fst r = Inr v \<and> commit s r = snd r)"
  by (cases "fst r") (simp_all add: commit_def)

lemma ledger_inv_transact: "ledger_inv s \<Longrightarrow> ledger_inv (transact k e c s)"
proof (cases c)
  case (RegisterPolicy h i p sd ed ph)
  assume inv: "ledger_inv s"
  obtain r s' where r: "registerPolicy k e h i p sd ed ph s = (r, s')" by force
  show ?thesis using inv r ledger_inv_registerPolicy [of s k e h i p sd ed ph _ s']
    by (cases r) (simp_all add: RegisterPolicy commit_def)
next
  case (SubmitClaim pid a d)
  assume inv: "ledger_inv s"
  obtain r s' where r: "submitClaim k e pid a d s = (r, s')" by force
  show ?thesis using inv r ledger_inv_submitClaim [of s k e pid a d _ s']
    by (cases r) (simp_all add: SubmitClaim commit_def)
next
  case (ProcessClaim cid)
  assume inv: "ledger_inv s"
  obtain r s' where r: "processClaim e cid s = (r, s')" by force
  show ?thesis using inv r ledger_inv_processClaim [of s e cid _ s']
    by (cases r) (simp_all add: ProcessClaim commit_def)
next
  case (DeactivatePolicy pid)
  assume inv: "ledger_inv s"
  obtain r s' where r: "deactivatePolicy e pid s = (r, s')" by force
  show ?thesis using inv r ledger_inv_deactivatePolicy [of s e pid _ s']
    by (cases r) (simp_all add: DeactivatePolicy commit_def)
qed

lemma reachable_ledger_inv: "reachable k s \<Longrightarrow> ledger_inv s"
  by (induction rule: reachable.induct) (simp_all add: ledger_inv_constructor ledger_inv_transact)

lemma reachable_run: "reachable k s \<Longrightarrow> reachable k (run k cs s)"
  by (induction cs arbitrary: s) (simp_all add: reachable.step)

lemma reachable_insured_nonzero:
  "reachable k s \<Longrightarrow> claimId (claims s cid) \<noteq> 0 \<Longrightarrow>
     insuredAmount (policies s (claimPolicyId (claims s cid))) \<noteq> 0"
  using reachable_ledger_inv [of k s] by (simp add: ledger_inv_def)

subsection \<open>The two ledgers, computed\<close>

lemma demo_registered_reachable: "reachable (\<lambda>_. 1) (demo_registered i)"
  unfolding demo_registered_def by (rule reachable_run) (rule reachable.deployed)

lemma demo_reachable: "reachable (\<lambda>_. 1) (demo_ledger i a)"
  unfolding demo_ledger_def by (rule reachable_run) (rule demo_registered_reachable)

lemma demo_registered_eq:
  "0 < i \<Longrightarrow>
   demo_registered i =
     \<lparr>insurer = 1, totalPolicies = 1, totalClaims = 0,
      policies = (\<lambda>_. zero_Policy)(1 := \<lparr>policyId = 1, policyHolder = 2, insuredAmount = i,
         premium = MINIMUM_PREMIUM, startDate = 10, endDate = 100, isActive = True,
         policyHash = ''doc''\<rparr>),
      claims = (\<lambda>_. zero_Claim),
      userPolicies = (\<lambda>_. [])(2 := [1]), userClaims = (\<lambda>_. []),
      events = [PolicyRegistered 1 2 i MINIMUM_PREMIUM 10 100]\<rparr>"
  by (simp add: demo_registered_def constructor_def registerPolicy_def commit_def
      onlyInsurer_def checked_inc_def Let_def MINIMUM_PREMIUM_def)

lemma demo_ledger_eq:
  "0 < i \<Longrightarrow> 0 < a \<Longrightarrow>
   demo_ledger i a =
     \<lparr>insurer = 1, totalPolicies = 1, totalClaims = 1,
      policies = (\<lambda>_. zero_Policy)(1 := \<lparr>policyId = 1, policyHolder = 2, insuredAmount = i,
         premium = MINIMUM_PREMIUM, startDate = 10, endDate = 100, isActive = True,
         policyHash = ''doc''\<rparr>),
      claims = (\<lambda>_. zero_Claim)(1 := \<lparr>claimId = 1, claimPolicyId = 1, claimant = 2,
         claimAmount = a, claimDescription = ''visit'', submissionDate = 50,
         status = Pending, rejectionReason = []\<rparr>),
      userPolicies = (\<lambda>_. [])(2 := [1]), userClaims = (\<lambda>_. [])(2 := [1]),
      events = [PolicyRegistered 1 2 i MINIMUM_PREMIUM 10 100, ClaimSubmitted 1 1 2 a ''visit'']\<rparr>"
  by (simp add: demo_ledger_def demo_registered_eq submitClaim_def commit_def
      validPolicy_def checked_inc_def Let_def)

subsection \<open>What processClaim decides\<close>

lemma processClaim_decision:
  assumes ex: "claimId (claims s cid) \<noteq> 0"
    and pend: "status (claims s cid) = Pending"
    and nz: "insuredAmount (policies s (claimPolicyId (claims s cid))) \<noteq> 0"
    and fit: "unat (claimAmount (claims s cid)) * 100 < 2 ^ 256"
  shows "fst (processClaim e cid s) =
           Inr (spec_approved e (claims s cid) (policies s (claimPolicyId (claims s cid))))"
    and "claims (snd (processClaim e cid s)) cid =
           (if spec_approved e (claims s cid) (policies s (claimPolicyId (claims s cid)))
            then (claims s cid)\<lparr>status := Approved\<rparr>
            else (claims s cid)\<lparr>status := Rejected,
                   rejectionReason := first_failing_reason e (claims s cid)
                      (policies s (claimPolicyId (claims s cid)))\<rparr>)"
  using ex pend nz checked_mul_100 [OF fit] ratio_le_80 [OF fit]
  by (auto simp: processClaim_def validClaim_def checked_div_def Let_def spec_approved_def
      spec_isAmountReasonable_def first_failing_reason_def)

lemma processClaim_Inr_fits:
  "fst (processClaim e cid s) = Inr b \<Longrightarrow>
     claimId (claims s cid) \<noteq> 0 \<and> status (claims s cid) = Pending
     \<and> unat (claimAmount (claims s cid)) * 100 < 2 ^ 256
     \<and> insuredAmount (policies s (claimPolicyId (claims s cid))) \<noteq> 0"
  by (auto simp: processClaim_def validClaim_def checked_mul_def checked_div_def Let_def
      split: if_splits sum.splits)

subsection \<open>C1: the decision of processClaim\<close>

text \<open>
  Claim C1 says that for every existing claim with status \<open>Pending\<close>, \<open>processClaim\<close>
  returns the conjunction of the three conditions and sets the status accordingly.
  \<open>processClaim_decision\<close> above proves this whenever \<open>claimAmount * 100\<close> fits in 256
  bits. It does not hold for every pending claim: \<open>submitClaim\<close> accepts any positive
  amount, and for an amount of \<open>2 ^ 255\<close> on a policy insuring 10 the product overflows,
  so that \<open>processClaim\<close> panics with code 0x11 before it writes anything. The claim
  exists, is pending and exceeds the insured amount, and is neither approved nor
  rejected; the storage is as it was, so every later call panics as well.
\<close>

theorem processClaim_overflow_panics:
  "reachable (\<lambda>_. 1) (demo_ledger 10 (2 ^ 255))
   \<and> claimId (claims (demo_ledger 10 (2 ^ 255)) 1) = 1
   \<and> status (claims (demo_ledger 10 (2 ^ 255)) 1) = Pending
   \<and> processClaim \<lparr>msg_sender = 1, block_timestamp = 60\<rparr> 1 (demo_ledger 10 (2 ^ 255))
       = (Inl (Panic 17), demo_ledger 10 (2 ^ 255))"
  using demo_reachable [of 10 "2 ^ 255"]
  by (simp add: demo_ledger_eq processClaim_def validClaim_def checked_mul_def Let_def)

subsection \<open>C2: the 80 per cent boundary\<close>

text \<open>
  Claim C2, as amended. For a pending claim of a reachable ledger whose policy is active
  and in its validity window, with \<open>claimAmount \<le> insuredAmount\<close> and \<open>claimAmount * 100\<close>
  below \<open>2 ^ 256\<close>: if the floor of \<open>amount * 100 / insuredAmount\<close> is at most 80 the claim
  is approved, and otherwise it is rejected with the reason
  \<open>Claim amount exceeds maximum allowed ratio\<close>. The floor is at most 80 exactly when
  \<open>amount * 100 < 81 * insuredAmount\<close>, so the amount \<open>floor (insuredAmount * 0.80) + 1\<close>
  is rejected exactly when \<open>81 * insuredAmount \<le> (floor (insuredAmount * 0.80) + 1) * 100\<close>,
  and approved otherwise.
\<close>

theorem processClaim_ratio_boundary:
  assumes reach: "reachable keccak256 s"
    and ex: "claimId (claims s cid) \<noteq> 0"
    and pend: "status (claims s cid) = Pending"
    and pol: "isPolicyValid e (policies s (claimPolicyId (claims s cid)))"
    and amt: "claimAmount (claims s cid) \<le> insuredAmount (policies s (claimPolicyId (claims s cid)))"
    and fit: "unat (claimAmount (claims s cid)) * 100 < 2 ^ 256"
  shows "(let claim = claims s cid; policy = policies s (claimPolicyId claim);
              a = unat (claimAmount claim); i = unat (insuredAmount policy);
              claim1 = claims (snd (processClaim e cid s)) cid
          in (a * 100 div i \<le> 80 \<longrightarrow>
                fst (processClaim e cid s) = Inr True \<and> status claim1 = Approved)
           \<and> (\<not> a * 100 div i \<le> 80 \<longrightarrow>
                fst (processClaim e cid s) = Inr False \<and> status claim1 = Rejected
                \<and> rejectionReason claim1 = ''Claim amount exceeds maximum allowed ratio'')
           \<and> (a * 100 div i \<le> 80 \<longleftrightarrow> a * 100 < 81 * i)
           \<and> (a = i * 80 div 100 + 1 \<longrightarrow>
                (fst (processClaim e cid s) = Inr False
                   \<longleftrightarrow> 81 * i \<le> (i * 80 div 100 + 1) * 100)))"
proof -
  let ?claim = "claims s cid"
  let ?policy = "policies s (claimPolicyId ?claim)"
  let ?a = "unat (claimAmount ?claim)"
  let ?i = "unat (insuredAmount ?policy)"
  have nz: "insuredAmount ?policy \<noteq> 0"
    using reach ex by (rule reachable_insured_nonzero)
  then have ipos: "0 < ?i" by (simp add: unat_gt_0)
  have iff: "?a * 100 div ?i \<le> 80 \<longleftrightarrow> ?a * 100 < 81 * ?i"
  proof -
    have "?a * 100 div ?i \<le> 80 \<longleftrightarrow> ?a * 100 div ?i < 81" by arith
    also have "\<dots> \<longleftrightarrow> ?a * 100 < 81 * ?i"
      using ipos by (simp add: div_less_iff_less_mult)
    finally show ?thesis .
  qed
  have appr: "spec_approved e ?claim ?policy \<longleftrightarrow> ?a * 100 div ?i \<le> 80"
    using pol amt by (simp add: spec_approved_def spec_isAmountReasonable_def isAmountValid_def)
  have res: "fst (processClaim e cid s) = Inr (?a * 100 div ?i \<le> 80)"
    using processClaim_decision(1) [OF ex pend nz fit, of e] appr by simp
  have rec: "claims (snd (processClaim e cid s)) cid =
      (if ?a * 100 div ?i \<le> 80 then ?claim\<lparr>status := Approved\<rparr>
       else ?claim\<lparr>status := Rejected,
              rejectionReason := ''Claim amount exceeds maximum allowed ratio''\<rparr>)"
    using processClaim_decision(2) [OF ex pend nz fit, of e] appr pol amt
    by (simp add: first_failing_reason_def isAmountValid_def)
  show ?thesis
    unfolding Let_def using res rec iff by auto
qed

text \<open>The theorem at a claim of 9 on a policy insuring 10: rejected for the ratio.\<close>

theorem processClaim_ratio_boundary_witness:
  "reachable (\<lambda>_. 1) (demo_ledger 10 9)
   \<and> claimId (claims (demo_ledger 10 9) 1) \<noteq> 0
   \<and> status (claims (demo_ledger 10 9) 1) = Pending
   \<and> isPolicyValid \<lparr>msg_sender = 1, block_timestamp = 60\<rparr>
        (policies (demo_ledger 10 9) (claimPolicyId (claims (demo_ledger 10 9) 1)))
   \<and> claimAmount (claims (demo_ledger 10 9) 1)
        \<le> insuredAmount (policies (demo_ledger 10 9) (claimPolicyId (claims (demo_ledger 10 9) 1)))
   \<and> unat (claimAmount (claims (demo_ledger 10 9) 1)) * 100 < 2 ^ 256
   \<and> fst (processClaim \<lparr>msg_sender = 1, block_timestamp = 60\<rparr> 1 (demo_ledger 10 9)) = Inr False
   \<and> rejectionReason (claims (snd (processClaim \<lparr>msg_sender = 1, block_timestamp = 60\<rparr> 1
        (demo_ledger 10 9))) 1) = ''Claim amount exceeds maximum allowed ratio''"
proof -
  let ?s = "demo_ledger 10 9"
  let ?e = "\<lparr>msg_sender = 1, block_timestamp = 60\<rparr>"
  have h1: "reachable (\<lambda>_. 1) ?s" by (rule demo_reachable)
  have h2: "claimId (claims ?s 1) \<noteq> 0" by (simp add: demo_ledger_eq)
  have h3: "status (claims ?s 1) = Pending" by (simp add: demo_ledger_eq)
  have h4: "isPolicyValid ?e (policies ?s (claimPolicyId (claims ?s 1)))"
    by (simp add: demo_ledger_eq isPolicyValid_def)
  have h5: "claimAmount (claims ?s 1) \<le> insuredAmount (policies ?s (claimPolicyId (claims ?s 1)))"
    by (simp add: demo_ledger_eq)
  have h6: "unat (claimAmount (claims ?s 1)) * 100 < 2 ^ 256" by (simp add: demo_ledger_eq)
  have vals: "unat (claimAmount (claims ?s 1)) = 9"
    "unat (insuredAmount (policies ?s (claimPolicyId (claims ?s 1)))) = 10"
    by (simp_all add: demo_ledger_eq)
  show ?thesis
    using processClaim_ratio_boundary [OF h1 h2 h3 h4 h5 h6] h1 h2 h3 h4 h5 h6
    by (simp add: Let_def vals)
qed

text \<open>
  Claim C2 as stated fails: on a policy insuring 1000 the amount one unit above 80 per
  cent is 801, the floor of \<open>801 * 100 / 1000\<close> is 80, and the claim is approved.
\<close>

theorem ratio_boundary_counterexample:
  "unat (801 :: uint256) = unat (1000 :: uint256) * 80 div 100 + 1
   \<and> status (claims (demo_ledger 1000 801) 1) = Pending
   \<and> isPolicyValid \<lparr>msg_sender = 1, block_timestamp = 60\<rparr> (policies (demo_ledger 1000 801) 1)
   \<and> fst (processClaim \<lparr>msg_sender = 1, block_timestamp = 60\<rparr> 1 (demo_ledger 1000 801))
       = Inr True
   \<and> status (claims (snd (processClaim \<lparr>msg_sender = 1, block_timestamp = 60\<rparr> 1
        (demo_ledger 1000 801))) 1) = Approved"
  by (simp add: demo_ledger_eq processClaim_def validClaim_def checked_mul_def checked_div_def
      Let_def isPolicyValid_def isAmountValid_def MAXIMUM_CLAIM_RATIO_def)

subsection \<open>C3: the reason of a rejection\<close>

text \<open>
  Claim C3, as amended. For a pending claim of a reachable ledger: whenever
  \<open>processClaim\<close> returns \<open>false\<close>, the status is \<open>Rejected\<close> and the reason is that of
  the first failing condition in the order policy validity, amount validity, ratio. In
  particular, on an active policy in its window, with \<open>claimAmount > insuredAmount\<close> and
  \<open>claimAmount * 100\<close> below \<open>2 ^ 256\<close>, the claim is rejected and the recorded reason is
  exactly \<open>Claim amount exceeds insured amount\<close>, with a capital C.
\<close>

theorem processClaim_rejection_reason:
  assumes reach: "reachable keccak256 s"
    and ex: "claimId (claims s cid) \<noteq> 0"
    and pend: "status (claims s cid) = Pending"
  shows "(let claim = claims s cid; policy = policies s (claimPolicyId claim);
              claim1 = claims (snd (processClaim e cid s)) cid
          in (fst (processClaim e cid s) = Inr False \<longrightarrow>
                status claim1 = Rejected
                \<and> rejectionReason claim1 = first_failing_reason e claim policy)
           \<and> (isPolicyValid e policy \<and> claimAmount claim > insuredAmount policy
                \<and> unat (claimAmount claim) * 100 < 2 ^ 256 \<longrightarrow>
                fst (processClaim e cid s) = Inr False
                \<and> status claim1 = Rejected
                \<and> rejectionReason claim1 = ''Claim amount exceeds insured amount''))"
proof -
  let ?claim = "claims s cid"
  let ?policy = "policies s (claimPolicyId ?claim)"
  have nz: "insuredAmount ?policy \<noteq> 0"
    using reach ex by (rule reachable_insured_nonzero)
  have first: "status (claims (snd (processClaim e cid s)) cid) = Rejected
      \<and> rejectionReason (claims (snd (processClaim e cid s)) cid)
          = first_failing_reason e ?claim ?policy"
    if rej: "fst (processClaim e cid s) = Inr False"
  proof -
    have fit: "unat (claimAmount ?claim) * 100 < 2 ^ 256"
      using processClaim_Inr_fits [OF rej] by simp
    have "\<not> spec_approved e ?claim ?policy"
      using processClaim_decision(1) [OF ex pend nz fit, of e] rej by simp
    then show ?thesis
      using processClaim_decision(2) [OF ex pend nz fit, of e] by simp
  qed
  have second: "fst (processClaim e cid s) = Inr False
      \<and> status (claims (snd (processClaim e cid s)) cid) = Rejected
      \<and> rejectionReason (claims (snd (processClaim e cid s)) cid)
          = ''Claim amount exceeds insured amount''"
    if pol: "isPolicyValid e ?policy"
      and over: "claimAmount ?claim > insuredAmount ?policy"
      and fit: "unat (claimAmount ?claim) * 100 < 2 ^ 256"
  proof -
    have no: "\<not> isAmountValid ?claim ?policy"
      using over by (simp add: isAmountValid_def not_le)
    then have "\<not> spec_approved e ?claim ?policy"
      by (simp add: spec_approved_def)
    then show ?thesis
      using processClaim_decision [OF ex pend nz fit, of e] pol no
      by (simp add: first_failing_reason_def)
  qed
  show ?thesis
    unfolding Let_def using first second by blast
qed

text \<open>The theorem at the specification's scenario: a claim of 6 on a policy insuring 5.\<close>

theorem processClaim_rejection_reason_witness:
  "reachable (\<lambda>_. 1) (demo_ledger 5 6)
   \<and> claimId (claims (demo_ledger 5 6) 1) \<noteq> 0
   \<and> status (claims (demo_ledger 5 6) 1) = Pending
   \<and> isPolicyValid \<lparr>msg_sender = 1, block_timestamp = 60\<rparr>
        (policies (demo_ledger 5 6) (claimPolicyId (claims (demo_ledger 5 6) 1)))
   \<and> claimAmount (claims (demo_ledger 5 6) 1)
        > insuredAmount (policies (demo_ledger 5 6) (claimPolicyId (claims (demo_ledger 5 6) 1)))
   \<and> unat (claimAmount (claims (demo_ledger 5 6) 1)) * 100 < 2 ^ 256
   \<and> fst (processClaim \<lparr>msg_sender = 1, block_timestamp = 60\<rparr> 1 (demo_ledger 5 6)) = Inr False
   \<and> rejectionReason (claims (snd (processClaim \<lparr>msg_sender = 1, block_timestamp = 60\<rparr> 1
        (demo_ledger 5 6))) 1) = ''Claim amount exceeds insured amount''"
proof -
  let ?s = "demo_ledger 5 6"
  let ?e = "\<lparr>msg_sender = 1, block_timestamp = 60\<rparr>"
  have h1: "reachable (\<lambda>_. 1) ?s" by (rule demo_reachable)
  have h2: "claimId (claims ?s 1) \<noteq> 0" by (simp add: demo_ledger_eq)
  have h3: "status (claims ?s 1) = Pending" by (simp add: demo_ledger_eq)
  have h4: "isPolicyValid ?e (policies ?s (claimPolicyId (claims ?s 1)))"
    by (simp add: demo_ledger_eq isPolicyValid_def)
  have h5: "claimAmount (claims ?s 1) > insuredAmount (policies ?s (claimPolicyId (claims ?s 1)))"
    by (simp add: demo_ledger_eq)
  have h6: "unat (claimAmount (claims ?s 1)) * 100 < 2 ^ 256" by (simp add: demo_ledger_eq)
  show ?thesis
    using processClaim_rejection_reason [OF h1 h2 h3, of ?e] h1 h2 h3 h4 h5 h6
    by (simp add: Let_def)
qed

text \<open>
  Claim C3 as stated fails on the text: in the same scenario the recorded reason is not
  the lower-case \<open>claim amount exceeds insured amount\<close>.
\<close>

theorem rejection_text_counterexample:
  "status (claims (demo_ledger 5 6) 1) = Pending
   \<and> isPolicyValid \<lparr>msg_sender = 1, block_timestamp = 60\<rparr> (policies (demo_ledger 5 6) 1)
   \<and> claimAmount (claims (demo_ledger 5 6) 1) > insuredAmount (policies (demo_ledger 5 6) 1)
   \<and> fst (processClaim \<lparr>msg_sender = 1, block_timestamp = 60\<rparr> 1 (demo_ledger 5 6)) = Inr False
   \<and> rejectionReason (claims (snd (processClaim \<lparr>msg_sender = 1, block_timestamp = 60\<rparr> 1
        (demo_ledger 5 6))) 1) \<noteq> ''claim amount exceeds insured amount''"
  by (simp add: demo_ledger_eq processClaim_def validClaim_def checked_mul_def checked_div_def
      Let_def isPolicyValid_def isAmountValid_def MAXIMUM_CLAIM_RATIO_def)

subsection \<open>The packed encoding of each tuple is injective\<close>

lemma length_be_bytes [simp]: "length (be_bytes n w) = n"
  by (simp add: be_bytes_def)

lemma be_bytes_inj:
  fixes a b :: "'a::len word"
  assumes len: "LENGTH('a) \<le> 8 * n" and eq: "be_bytes n a = be_bytes n b"
  shows "a = b"
proof (rule bit_word_eqI)
  fix j assume j: "j < LENGTH('a)"
  let ?f = "\<lambda>w i. (ucast (drop_bit (8 * i) w) :: byte)"
  have "map (?f a) (rev [0..<n]) = map (?f b) (rev [0..<n])"
    using eq by (simp add: be_bytes_def)
  then have all: "\<forall>i<n. ?f a i = ?f b i"
    by (simp add: rev_map [symmetric])
  have "j div 8 < n" using j len by (simp add: less_mult_imp_div_less mult.commute)
  then have "?f a (j div 8) = ?f b (j div 8)" using all by blast
  then have "bit (?f a (j div 8)) (j mod 8) = bit (?f b (j div 8)) (j mod 8)" by simp
  then show "bit a j = bit b j"
    by (simp add: bit_ucast_iff bit_drop_bit_eq)
qed

lemma string_bytes_inj: "string_bytes s = string_bytes t \<Longrightarrow> s = t"
proof -
  have inj: "inj (\<lambda>c. (of_nat (of_char c) :: byte))"
  proof (rule injI)
    fix c d :: char
    assume "(of_nat (of_char c) :: byte) = of_nat (of_char d)"
    then have "unat (of_nat (of_char c) :: byte) = unat (of_nat (of_char d) :: byte)" by simp
    moreover have "(of_char c :: nat) < 256" "(of_char d :: nat) < 256" by simp_all
    ultimately have "(of_char c :: nat) = of_char d"
      by (simp add: unat_of_nat)
    then show "c = d" by simp
  qed
  assume "string_bytes s = string_bytes t"
  then show ?thesis
    unfolding string_bytes_def using inj by (simp add: inj_map_eq_map)
qed

lemma policy_preimage_inj:
  "policy_preimage h i p sd ed n c = policy_preimage h' i' p' sd' ed' n' c'
     \<longleftrightarrow> h = h' \<and> i = i' \<and> p = p' \<and> sd = sd' \<and> ed = ed' \<and> n = n' \<and> c = c'"
  by (auto simp: policy_preimage_def encodePacked_def dest: be_bytes_inj [rotated])

lemma claim_preimage_inj:
  "claim_preimage pid a amt d n c = claim_preimage pid' a' amt' d' n' c'
     \<longleftrightarrow> pid = pid' \<and> a = a' \<and> amt = amt' \<and> d = d' \<and> n = n' \<and> c = c'"
  by (auto simp: claim_preimage_def encodePacked_def
      dest: be_bytes_inj [rotated] string_bytes_inj)

subsection \<open>C4: a claim is processed once\<close>

















subsection \<open>C5: the policy id and the counter\<close>







subsection \<open>C6: the encoding of the preimage\<close>

lemma byte_mod: "(word_of_nat (unat b mod 256) :: byte) = b" for b :: byte
proof -
  have "unat b < 2 ^ 8" using unsigned_less [of b, where ?'a = nat] by simp
  then have "unat b mod 256 = unat b" by simp
  then show ?thesis by simp
qed

lemma string_bytes_bytes_string: "string_bytes (bytes_string bs) = bs"
  by (simp add: string_bytes_def bytes_string_def o_def byte_mod)

lemma upt_split_shift: "[0..<m + n] = [0..<n] @ map (\<lambda>i. i + n) [0..<m]"
proof -
  have "[0..<n + m] = [0..<n] @ [n..<n + m]" by (rule upt_add_eq_append) simp
  moreover have "map (\<lambda>i. i + n) [0..<m] = [n..<m + n]" by (simp add: map_add_upt)
  ultimately show ?thesis by (simp add: add.commute)
qed

lemma be_bytes_append:
  "be_bytes (m + n) w = be_bytes m (drop_bit (8 * n) w) @ be_bytes n w"
proof -
  have shift: "drop_bit (8 * (i + n)) w = drop_bit (8 * i) (drop_bit (8 * n) w)" for i
    by (simp only: drop_bit_drop_bit add_mult_distrib2 add.commute)
  show ?thesis
    unfolding be_bytes_def upt_split_shift
    by (simp only: rev_append map_append rev_map map_map o_def shift)
qed

lemma be_bytes_cong:
  fixes w :: "'a::len word" and w' :: "'b::len word"
  assumes "\<And>j. j < 8 * n \<Longrightarrow> bit w j = bit w' j"
  shows "be_bytes n w = be_bytes n w'"
proof -
  have "(ucast (drop_bit (8 * i) w) :: byte) = ucast (drop_bit (8 * i) w')" if "i < n" for i
  proof (rule bit_word_eqI)
    fix j assume "j < LENGTH(8)"
    then have j: "j < 8" by simp
    then have "8 * i + j < 8 * n" using that by simp
    then have "bit w (8 * i + j) = bit w' (8 * i + j)" by (rule assms)
    then show "bit (ucast (drop_bit (8 * i) w) :: byte) j
             = bit (ucast (drop_bit (8 * i) w') :: byte) j"
      using j by (simp add: bit_ucast_iff bit_drop_bit_eq)
  qed
  then show ?thesis
    by (simp add: be_bytes_def)
qed

lemma regroup_c:
  fixes P :: bytes32
  shows "be_bytes 20 (drop_bit 96 P) = be_bytes 20 (ucast (drop_bit 96 P) :: address)"
  by (rule be_bytes_cong) (simp add: bit_ucast_iff)

lemma regroup_d:
  fixes P :: bytes32 and A :: address
  shows "be_bytes 12 P = be_bytes 12 (drop_bit 160 (push_bit 160 P OR ucast A :: uint256))"
proof (rule be_bytes_cong)
  fix j :: nat assume "j < 8 * 12"
  then have j: "j < 96" by simp
  have "\<not> bit (ucast A :: uint256) (160 + j)"
    using bit_imp_le_length [of A "160 + j"] by (auto simp: bit_ucast_iff)
  moreover have "bit (push_bit 160 P) (160 + j) = bit P j"
    using j by (simp add: bit_push_bit_iff)
  ultimately show "bit P j = bit (drop_bit 160 (push_bit 160 P OR ucast A :: uint256)) j"
    by (simp add: bit_drop_bit_eq bit_or_iff)
qed

lemma regroup_e:
  fixes P :: bytes32 and A :: address
  shows "be_bytes 20 A = be_bytes 20 (push_bit 160 P OR ucast A :: uint256)"
proof (rule be_bytes_cong)
  fix j :: nat assume "j < 8 * 20"
  then have j: "j < 160" by simp
  have "\<not> bit (push_bit 160 P) j"
    using j by (simp add: bit_push_bit_iff)
  moreover have "bit (ucast A :: uint256) j = bit A j"
    using j by (simp add: bit_ucast_iff)
  ultimately show "bit A j = bit (push_bit 160 P OR ucast A :: uint256) j"
    by (simp add: bit_or_iff)
qed

lemma packed_prefix_regroup:
  fixes P :: bytes32 and A :: address
  shows "be_bytes 32 P @ be_bytes 20 A
       = be_bytes 20 (ucast (drop_bit 96 P) :: address)
           @ be_bytes 32 (push_bit 160 P OR ucast A :: uint256)"
proof -
  let ?I = "push_bit 160 P OR ucast A :: uint256"
  have a: "be_bytes 32 P = be_bytes 20 (drop_bit 96 P) @ be_bytes 12 P"
    using be_bytes_append [of 20 12 P] by simp
  have b: "be_bytes 32 ?I = be_bytes 12 (drop_bit 160 ?I) @ be_bytes 20 ?I"
    using be_bytes_append [of 12 20 ?I] by simp
  show ?thesis
    unfolding a b regroup_c regroup_d [of P A, symmetric] regroup_e [of A P, symmetric]
    by simp
qed

lemma claim_preimage_as_policy_preimage:
  "claim_preimage pid a amt (bytes_string (be_bytes 32 sd @ be_bytes 32 ed)) n c
     = policy_preimage (ucast (drop_bit 96 pid)) (push_bit 160 pid OR ucast a) amt sd ed n c"
  using packed_prefix_regroup [of pid a]
  by (simp add: claim_preimage_def policy_preimage_def encodePacked_def
      string_bytes_bytes_string)

lemma cross_preimage_length:
  assumes "policy_preimage h i p sd ed n c = claim_preimage pid a amt d n' c'"
  shows "length d = 64"
proof -
  have "length (policy_preimage h i p sd ed n c)
      = length (claim_preimage pid a amt d n' c')" using assms by simp
  then show ?thesis
    by (simp add: claim_preimage_def policy_preimage_def encodePacked_def string_bytes_def)
qed

lemma demo_regroup:
  "(ucast (drop_bit 96 (5 * 2 ^ 96 :: bytes32)) :: address) = 5"
  "(push_bit 160 (5 * 2 ^ 96 :: bytes32) OR ucast (2 :: address) :: uint256) = 2"
  by simp_all

lemma demo_cross_preimage:
  "policy_preimage 5 2 MINIMUM_PREMIUM 10 100 50 1
     = claim_preimage (5 * 2 ^ 96) 2 MINIMUM_PREMIUM
         (bytes_string (be_bytes 32 (10 :: uint256) @ be_bytes 32 (100 :: uint256))) 50 1"
  using claim_preimage_as_policy_preimage [of "5 * 2 ^ 96" 2 MINIMUM_PREMIUM 10 100 50 1]
  unfolding demo_regroup by simp

text \<open>
  Claim C6, as amended. The ids are hashes of \<open>abi.encodePacked\<close>, the concatenation of
  the fields' bytes with no type tag and no length. Within each kind the encoding is
  injective: two distinct policy tuples have distinct preimages (seven fields of fixed
  width), and two distinct claim tuples have distinct preimages (one field of variable
  length, the description, between fields of fixed width). Across the two kinds it is
  not: for every policy id, sender, amount, time and counter, the claim tuple whose
  description is the 64 bytes of two numbers \<open>sd\<close> and \<open>ed\<close> has the preimage of the
  policy tuple with holder the first 20 bytes of the policy id, insured amount the last
  12 bytes of the policy id followed by the sender, premium the amount, and dates \<open>sd\<close>
  and \<open>ed\<close>. A policy tuple and a claim tuple share a preimage only when the
  description is 64 bytes long.
\<close>

theorem identifier_preimages_injective:
  "(policy_preimage h i p sd ed n c = policy_preimage h' i' p' sd' ed' n' c'
      \<longleftrightarrow> h = h' \<and> i = i' \<and> p = p' \<and> sd = sd' \<and> ed = ed' \<and> n = n' \<and> c = c')
   \<and> (claim_preimage pid a amt d t k = claim_preimage pid' a' amt' d' t' k'
      \<longleftrightarrow> pid = pid' \<and> a = a' \<and> amt = amt' \<and> d = d' \<and> t = t' \<and> k = k')
   \<and> claim_preimage pid a amt (bytes_string (be_bytes 32 sd @ be_bytes 32 ed)) t k
       = policy_preimage (ucast (drop_bit 96 pid)) (push_bit 160 pid OR ucast a) amt sd ed t k
   \<and> (policy_preimage h i p sd ed n c = claim_preimage pid a amt d t k \<longrightarrow> length d = 64)"
  using cross_preimage_length [of h i p sd ed n c pid a amt d t k]
  by (simp only: policy_preimage_inj claim_preimage_inj claim_preimage_as_policy_preimage)
    simp

text \<open>The theorem at a policy tuple and a claim tuple with the same preimage.\<close>

theorem identifier_preimages_injective_witness:
  "policy_preimage 5 2 MINIMUM_PREMIUM 10 100 50 1
     = claim_preimage (5 * 2 ^ 96) 2 MINIMUM_PREMIUM
         (bytes_string (be_bytes 32 (10 :: uint256) @ be_bytes 32 (100 :: uint256))) 50 1
   \<and> length (bytes_string (be_bytes 32 (10 :: uint256) @ be_bytes 32 (100 :: uint256))) = 64"
proof -
  let ?d = "bytes_string (be_bytes 32 (10 :: uint256) @ be_bytes 32 (100 :: uint256))"
  note T = identifier_preimages_injective [of 5 2 MINIMUM_PREMIUM 10 100 50 1
      5 2 MINIMUM_PREMIUM 10 100 50 1 "5 * 2 ^ 96" 2 MINIMUM_PREMIUM ?d 50 1
      "5 * 2 ^ 96" 2 MINIMUM_PREMIUM ?d 50 1]
  have eq: "policy_preimage 5 2 MINIMUM_PREMIUM 10 100 50 1
     = claim_preimage (5 * 2 ^ 96) 2 MINIMUM_PREMIUM ?d 50 1"
    using T unfolding demo_regroup by simp
  then have "length ?d = 64" using T by blast
  then show ?thesis using eq by (intro conjI)
qed

text \<open>
  Claim C6 as stated fails: the tuple \<open>registerPolicy\<close> packs for holder 5, insured
  amount 2, the minimum premium, dates 10 and 100, at time 50 with counter 1, and the
  tuple \<open>submitClaim\<close> packs for policy \<open>5 * 2 ^ 96\<close>, sender 2, the same amount, a
  description of 64 bytes, at time 50 with counter 1, are distinct and have the same
  preimage. Each passes the \<open>require\<close>s of its function on its fields.
\<close>

theorem cross_kind_collision:
  "[AAddress 5, AUint256 2, AUint256 MINIMUM_PREMIUM, AUint256 10, AUint256 100,
      AUint256 50, AUint256 1]
     \<noteq> [ABytes32 (5 * 2 ^ 96), AAddress 2, AUint256 MINIMUM_PREMIUM,
         AString (bytes_string (be_bytes 32 (10 :: uint256) @ be_bytes 32 (100 :: uint256))),
         AUint256 50, AUint256 1]
   \<and> encodePacked [AAddress 5, AUint256 2, AUint256 MINIMUM_PREMIUM, AUint256 10,
         AUint256 100, AUint256 50, AUint256 1]
     = encodePacked [ABytes32 (5 * 2 ^ 96), AAddress 2, AUint256 MINIMUM_PREMIUM,
         AString (bytes_string (be_bytes 32 (10 :: uint256) @ be_bytes 32 (100 :: uint256))),
         AUint256 50, AUint256 1]
   \<and> policy_preimage 5 2 MINIMUM_PREMIUM 10 100 50 1
     = claim_preimage (5 * 2 ^ 96) 2 MINIMUM_PREMIUM
         (bytes_string (be_bytes 32 (10 :: uint256) @ be_bytes 32 (100 :: uint256))) 50 1
   \<and> (5 :: address) \<noteq> 0 \<and> (2 :: uint256) > 0 \<and> MINIMUM_PREMIUM \<ge> MINIMUM_PREMIUM
   \<and> (100 :: uint256) > 10 \<and> (100 :: uint256) > 50 \<and> MINIMUM_PREMIUM > 0"
proof -
  have eq: "policy_preimage 5 2 MINIMUM_PREMIUM 10 100 50 1
     = claim_preimage (5 * 2 ^ 96) 2 MINIMUM_PREMIUM
         (bytes_string (be_bytes 32 (10 :: uint256) @ be_bytes 32 (100 :: uint256))) 50 1"
    by (rule demo_cross_preimage)
  have enc: "encodePacked [AAddress 5, AUint256 2, AUint256 MINIMUM_PREMIUM, AUint256 10,
         AUint256 100, AUint256 50, AUint256 1]
     = encodePacked [ABytes32 (5 * 2 ^ 96), AAddress 2, AUint256 MINIMUM_PREMIUM,
         AString (bytes_string (be_bytes 32 (10 :: uint256) @ be_bytes 32 (100 :: uint256))),
         AUint256 50, AUint256 1]"
    using eq unfolding policy_preimage_def claim_preimage_def .
  have ne: "[AAddress 5, AUint256 2, AUint256 MINIMUM_PREMIUM, AUint256 10, AUint256 100,
      AUint256 50, AUint256 1]
     \<noteq> [ABytes32 (5 * 2 ^ 96), AAddress 2, AUint256 MINIMUM_PREMIUM,
         AString (bytes_string (be_bytes 32 (10 :: uint256) @ be_bytes 32 (100 :: uint256))),
         AUint256 50, AUint256 1]"
    by simp
  have req: "(5 :: address) \<noteq> 0" "(2 :: uint256) > 0" "MINIMUM_PREMIUM \<ge> MINIMUM_PREMIUM"
    "(100 :: uint256) > 10" "(100 :: uint256) > 50" "MINIMUM_PREMIUM > 0"
    by (simp_all add: MINIMUM_PREMIUM_def)
  show ?thesis
    by (intro conjI ne enc eq req)
qed

text \<open>
  Both tuples are packed in a reachable ledger: at time 50, with both counters at 1, the
  insurer's \<open>registerPolicy\<close> and the holder's \<open>submitClaim\<close> on policy \<open>5 * 2 ^ 96\<close>
  both succeed, and each returns the hash of its tuple.
\<close>

lemma demo_cross_reachable: "reachable demo_cross_hash demo_cross_ledger"
  unfolding demo_cross_ledger_def by (rule reachable_run) (rule reachable.deployed)

lemma demo_cross_facts:
  "insurer demo_cross_ledger = 1"
  "totalPolicies demo_cross_ledger = 1"
  "totalClaims demo_cross_ledger = 1"
  "policies demo_cross_ledger 396140812571321687967719751680 =
     \<lparr>policyId = 396140812571321687967719751680, policyHolder = 2, insuredAmount = 10,
      premium = MINIMUM_PREMIUM, startDate = 10, endDate = 100, isActive = True,
      policyHash = ''doc''\<rparr>"
  by (simp_all add: demo_cross_ledger_def demo_cross_hash_def constructor_def
      registerPolicy_def submitClaim_def commit_def onlyInsurer_def validPolicy_def
      checked_inc_def Let_def MINIMUM_PREMIUM_def)

lemma demo_cross_both_packed:
  "reachable demo_cross_hash demo_cross_ledger
   \<and> fst (registerPolicy demo_cross_hash \<lparr>msg_sender = 1, block_timestamp = 50\<rparr>
              5 2 MINIMUM_PREMIUM 10 100 ''doc2'' demo_cross_ledger)
       = Inr (demo_cross_hash (policy_preimage 5 2 MINIMUM_PREMIUM 10 100 50 1))
   \<and> fst (submitClaim demo_cross_hash \<lparr>msg_sender = 2, block_timestamp = 50\<rparr> (5 * 2 ^ 96)
              MINIMUM_PREMIUM
              (bytes_string (be_bytes 32 (10 :: uint256) @ be_bytes 32 (100 :: uint256)))
              demo_cross_ledger)
       = Inr (demo_cross_hash (claim_preimage (5 * 2 ^ 96) 2 MINIMUM_PREMIUM
                (bytes_string (be_bytes 32 (10 :: uint256) @ be_bytes 32 (100 :: uint256)))
                50 1))"
proof (intro conjI)
  show "reachable demo_cross_hash demo_cross_ledger" by (rule demo_cross_reachable)
  show "fst (registerPolicy demo_cross_hash \<lparr>msg_sender = 1, block_timestamp = 50\<rparr>
              5 2 MINIMUM_PREMIUM 10 100 ''doc2'' demo_cross_ledger)
       = Inr (demo_cross_hash (policy_preimage 5 2 MINIMUM_PREMIUM 10 100 50 1))"
    by (simp add: registerPolicy_def onlyInsurer_def demo_cross_facts checked_inc_def Let_def
        MINIMUM_PREMIUM_def)
  show "fst (submitClaim demo_cross_hash \<lparr>msg_sender = 2, block_timestamp = 50\<rparr> (5 * 2 ^ 96)
              MINIMUM_PREMIUM
              (bytes_string (be_bytes 32 (10 :: uint256) @ be_bytes 32 (100 :: uint256)))
              demo_cross_ledger)
       = Inr (demo_cross_hash (claim_preimage (5 * 2 ^ 96) 2 MINIMUM_PREMIUM
                (bytes_string (be_bytes 32 (10 :: uint256) @ be_bytes 32 (100 :: uint256)))
                50 1))"
    by (simp add: submitClaim_def validPolicy_def demo_cross_facts checked_inc_def Let_def
        MINIMUM_PREMIUM_def)
qed

subsection \<open>C7: a claim submitted before the policy starts\<close>

text \<open>
  Claim C7, as amended. For every active policy, a \<open>submitClaim\<close> made before the
  policy's start date fails and has written nothing where it fails: no claim record, the
  same \<open>totalClaims\<close>, the same storage. The \<open>require\<close>s run in the order holder, amount,
  start date: the failure is \<open>Only policy holder can submit claims\<close> when the caller is
  not the policy holder, else \<open>Claim amount must be greater than 0\<close> when the amount is
  zero, else \<open>Policy has not started yet\<close>.
\<close>

theorem submitClaim_before_start:
  assumes ex: "policyId (policies s pid) \<noteq> 0"
    and act: "isActive (policies s pid)"
    and early: "block_timestamp e < startDate (policies s pid)"
  shows "submitClaim keccak256 e pid amount description s =
           (Inl (Revert
              (if msg_sender e \<noteq> policyHolder (policies s pid)
                 then ''Only policy holder can submit claims''
               else if amount = 0 then ''Claim amount must be greater than 0''
               else ''Policy has not started yet'')), s)
         \<and> transact keccak256 e (SubmitClaim pid amount description) s = s
         \<and> claims (transact keccak256 e (SubmitClaim pid amount description) s) = claims s
         \<and> totalClaims (transact keccak256 e (SubmitClaim pid amount description) s)
             = totalClaims s"
proof -
  have body: "submitClaim keccak256 e pid amount description s =
           (Inl (Revert
              (if msg_sender e \<noteq> policyHolder (policies s pid)
                 then ''Only policy holder can submit claims''
               else if amount = 0 then ''Claim amount must be greater than 0''
               else ''Policy has not started yet'')), s)"
    using ex act early
    by (simp add: submitClaim_def validPolicy_def Let_def not_le word_greater_zero_iff)
  then have "transact keccak256 e (SubmitClaim pid amount description) s = s"
    by (simp add: commit_def)
  then show ?thesis using body by simp
qed

text \<open>
  The theorem on the policy starting at 10, at time 7: the holder's claim of 3, the
  holder's claim of 0, and a claim of 0 by another account.
\<close>

theorem submitClaim_before_start_witness:
  "policyId (policies (demo_registered 10) 1) \<noteq> 0
   \<and> isActive (policies (demo_registered 10) 1)
   \<and> block_timestamp \<lparr>msg_sender = 2, block_timestamp = 7\<rparr>
        < startDate (policies (demo_registered 10) 1)
   \<and> submitClaim (\<lambda>_. 1) \<lparr>msg_sender = 2, block_timestamp = 7\<rparr> 1 3 ''visit''
        (demo_registered 10)
       = (Inl (Revert ''Policy has not started yet''), demo_registered 10)
   \<and> submitClaim (\<lambda>_. 1) \<lparr>msg_sender = 2, block_timestamp = 7\<rparr> 1 0 ''visit''
        (demo_registered 10)
       = (Inl (Revert ''Claim amount must be greater than 0''), demo_registered 10)
   \<and> submitClaim (\<lambda>_. 1) \<lparr>msg_sender = 3, block_timestamp = 7\<rparr> 1 0 ''visit''
        (demo_registered 10)
       = (Inl (Revert ''Only policy holder can submit claims''), demo_registered 10)
   \<and> totalClaims (transact (\<lambda>_. 1) \<lparr>msg_sender = 2, block_timestamp = 7\<rparr>
        (SubmitClaim 1 3 ''visit'') (demo_registered 10)) = 0"
proof -
  let ?s = "demo_registered 10"
  let ?e = "\<lparr>msg_sender = 2, block_timestamp = 7\<rparr> :: env"
  let ?e3 = "\<lparr>msg_sender = 3, block_timestamp = 7\<rparr> :: env"
  have h1: "policyId (policies ?s 1) \<noteq> 0" by (simp add: demo_registered_eq)
  have h2: "isActive (policies ?s 1)" by (simp add: demo_registered_eq)
  have h3: "block_timestamp ?e < startDate (policies ?s 1)" by (simp add: demo_registered_eq)
  have h3': "block_timestamp ?e3 < startDate (policies ?s 1)" by (simp add: demo_registered_eq)
  have h4: "policyHolder (policies ?s 1) = 2" by (simp add: demo_registered_eq)
  have h5: "totalClaims ?s = 0" by (simp add: demo_registered_eq)
  have a: "submitClaim (\<lambda>_. 1) ?e 1 3 ''visit'' ?s
             = (Inl (Revert ''Policy has not started yet''), ?s)"
    and t: "totalClaims (transact (\<lambda>_. 1) ?e (SubmitClaim 1 3 ''visit'') ?s) = 0"
    using submitClaim_before_start [OF h1 h2 h3, of "\<lambda>_. 1" 3 "''visit''"] h4 h5
    by (simp_all add: commit_def)
  have b: "submitClaim (\<lambda>_. 1) ?e 1 0 ''visit'' ?s
             = (Inl (Revert ''Claim amount must be greater than 0''), ?s)"
    using submitClaim_before_start [OF h1 h2 h3, of "\<lambda>_. 1" 0 "''visit''"] h4
    by simp
  have c: "submitClaim (\<lambda>_. 1) ?e3 1 0 ''visit'' ?s
             = (Inl (Revert ''Only policy holder can submit claims''), ?s)"
    using submitClaim_before_start [OF h1 h2 h3', of "\<lambda>_. 1" 0 "''visit''"] h4
    by simp
  show ?thesis
    by (intro conjI h1 h2 h3 a b c t)
qed

text \<open>
  Claim C7 as stated fails: before the start date, the call of another account than the
  holder fails with \<open>Only policy holder can submit claims\<close>.
\<close>

theorem submitClaim_before_start_counterexample:
  "policyId (policies (demo_registered 10) 1) \<noteq> 0
   \<and> isActive (policies (demo_registered 10) 1)
   \<and> block_timestamp \<lparr>msg_sender = 3, block_timestamp = 7\<rparr>
        < startDate (policies (demo_registered 10) 1)
   \<and> fst (submitClaim (\<lambda>_. 1) \<lparr>msg_sender = 3, block_timestamp = 7\<rparr> 1 3 ''visit''
        (demo_registered 10))
       = Inl (Revert ''Only policy holder can submit claims'')
   \<and> fst (submitClaim (\<lambda>_. 1) \<lparr>msg_sender = 3, block_timestamp = 7\<rparr> 1 3 ''visit''
        (demo_registered 10))
       \<noteq> Inl (Revert ''Policy has not started yet'')"
  by (simp add: demo_registered_eq submitClaim_def validPolicy_def Let_def)

subsection \<open>C10: the statistics\<close>

text \<open>
  Claim C10. In every state of the ledger \<open>getContractStats\<close> returns \<open>totalPolicies\<close>,
  \<open>totalClaims\<close> and, as the number of active policies, the constant 0.
\<close>

theorem getContractStats_active_zero:
  "getContractStats s = (totalPolicies s, totalClaims s, 0)"
  by (simp add: getContractStats_def)

text \<open>With one policy registered, active and in its window, the count is 0 all the same.\<close>

lemma demo_stats:
  "isPolicyValidForClaims \<lparr>msg_sender = 2, block_timestamp = 60\<rparr> 1 (demo_ledger 10 3)
   \<and> getContractStats (demo_ledger 10 3) = (1, 1, 0)"
  by (simp add: demo_ledger_eq getContractStats_def isPolicyValidForClaims_def)

section \<open>Properties of the mirror ledger and the bridge\<close>

subsection \<open>C8: what a write stamps\<close>

lemma createPatientRecord_ledger:
  "snd (createPatientRecord c u data ledger) =
     ledger(get_prop data ''patientId'' \<mapsto>
       \<lparr>rec_type = ''PatientRecord'', rec_id = get_prop data ''patientId'',
        rec_data = data(''status'' \<mapsto> JString ''pending'', ''createdAt'' \<mapsto> JString c,
                        ''updatedAt'' \<mapsto> JString u)\<rparr>)"
  by (simp add: createPatientRecord_def Let_def)

lemma createClaimRequest_ledger:
  "snd (createClaimRequest c u data ledger) =
     ledger(get_prop data ''claimId'' \<mapsto>
       \<lparr>rec_type = ''ClaimRequest'', rec_id = get_prop data ''claimId'',
        rec_data = data(''status'' \<mapsto> JString ''submitted'', ''createdAt'' \<mapsto> JString c,
                        ''updatedAt'' \<mapsto> JString u)\<rparr>)"
  by (simp add: createClaimRequest_def Let_def)

lemma restrict_upd_other: "(m(k \<mapsto> v)) |` (- {k}) = m |` (- {k})"
  by (rule ext) (simp add: restrict_map_def)

text \<open>
  Claim C8, as amended. \<open>createPatientRecord\<close> and \<open>createClaimRequest\<close> insert or
  replace the record under its id and touch no other record: the keys after the write
  are those before it and the id, and every record under another key is as it was. They
  stamp both \<open>createdAt\<close> and \<open>updatedAt\<close> with the clock of the write, every time: a
  second write of an id already present adds no key, leaves the other records alone, and
  stores the record of the second write, whose \<open>createdAt\<close> is that of the second
  write, as if the first had not been. Only \<open>updateClaimStatus\<close> keeps the \<open>createdAt\<close>
  of the record, and its other properties, while it sets the status and the transaction
  reference and refreshes \<open>updatedAt\<close>.
\<close>

theorem mirror_put_restamps:
  "(let k = get_prop data ''patientId'';
        first = snd (createPatientRecord c1 u1 data ledger);
        second = snd (createPatientRecord c2 u2 data2 first)
    in first k = Some \<lparr>rec_type = ''PatientRecord'', rec_id = k,
                  rec_data = data(''status'' \<mapsto> JString ''pending'',
                    ''createdAt'' \<mapsto> JString c1, ''updatedAt'' \<mapsto> JString u1)\<rparr>
     \<and> dom first = insert k (dom ledger)
     \<and> first |` (- {k}) = ledger |` (- {k})
     \<and> (get_prop data2 ''patientId'' = k \<longrightarrow>
          second k = Some \<lparr>rec_type = ''PatientRecord'', rec_id = k,
                  rec_data = data2(''status'' \<mapsto> JString ''pending'',
                    ''createdAt'' \<mapsto> JString c2, ''updatedAt'' \<mapsto> JString u2)\<rparr>
        \<and> dom second = dom first
        \<and> second |` (- {k}) = first |` (- {k})
        \<and> second = snd (createPatientRecord c2 u2 data2 ledger)
        \<and> map_option (\<lambda>r. get_prop (rec_data r) ''createdAt'') (second k) = Some (JString c2)
        \<and> map_option (\<lambda>r. get_prop (rec_data r) ''updatedAt'') (second k) = Some (JString u2)))
   \<and> (let k = get_prop data ''claimId'';
        first = snd (createClaimRequest c1 u1 data ledger);
        second = snd (createClaimRequest c2 u2 data2 first)
    in first k = Some \<lparr>rec_type = ''ClaimRequest'', rec_id = k,
                  rec_data = data(''status'' \<mapsto> JString ''submitted'',
                    ''createdAt'' \<mapsto> JString c1, ''updatedAt'' \<mapsto> JString u1)\<rparr>
     \<and> dom first = insert k (dom ledger)
     \<and> first |` (- {k}) = ledger |` (- {k})
     \<and> (get_prop data2 ''claimId'' = k \<longrightarrow>
          second k = Some \<lparr>rec_type = ''ClaimRequest'', rec_id = k,
                  rec_data = data2(''status'' \<mapsto> JString ''submitted'',
                    ''createdAt'' \<mapsto> JString c2, ''updatedAt'' \<mapsto> JString u2)\<rparr>
        \<and> dom second = dom first
        \<and> second |` (- {k}) = first |` (- {k})
        \<and> second = snd (createClaimRequest c2 u2 data2 ledger)
        \<and> map_option (\<lambda>r. get_prop (rec_data r) ''createdAt'') (second k) = Some (JString c2)
        \<and> map_option (\<lambda>r. get_prop (rec_data r) ''updatedAt'') (second k) = Some (JString u2))
     \<and> (\<exists>r l. updateClaimStatus numToString u3 k newStatus txHash first = Inr (r, l)
          \<and> l k = Some r
          \<and> dom l = dom first
          \<and> l |` (- {k}) = first |` (- {k})
          \<and> rec_type r = ''ClaimRequest'' \<and> rec_id r = k
          \<and> rec_data r = data(''createdAt'' \<mapsto> JString c1, ''status'' \<mapsto> newStatus,
               ''ethereumTxHash'' \<mapsto> txHash, ''updatedAt'' \<mapsto> JString u3)
          \<and> get_prop (rec_data r) ''createdAt'' = JString c1
          \<and> get_prop (rec_data r) ''updatedAt'' = JString u3))"
proof -
  have upd: "data(''status'' \<mapsto> JString ''submitted'', ''createdAt'' \<mapsto> JString c1,
                  ''updatedAt'' \<mapsto> JString u1, ''status'' \<mapsto> newStatus,
                  ''ethereumTxHash'' \<mapsto> txHash, ''updatedAt'' \<mapsto> JString u3)
             = data(''createdAt'' \<mapsto> JString c1, ''status'' \<mapsto> newStatus,
                  ''ethereumTxHash'' \<mapsto> txHash, ''updatedAt'' \<mapsto> JString u3)"
    by (rule ext) simp
  show ?thesis
    unfolding Let_def createPatientRecord_ledger createClaimRequest_ledger
    by (simp add: get_prop_def updateClaimStatus_def Let_def restrict_upd_other upd
        insert_absorb)
qed

text \<open>
  The theorem at a patient record written on one day and again on the next, in a ledger
  that holds another patient's record.
\<close>

theorem mirror_put_restamps_witness:
  "(let data = [''patientId'' \<mapsto> (JString ''PAT001'' :: nat jsval),
                ''diagnosis'' \<mapsto> JString ''Routine Checkup''];
        data2 = [''patientId'' \<mapsto> JString ''PAT001'', ''diagnosis'' \<mapsto> JString ''Follow-up''];
        ledger = [JString ''PAT000'' \<mapsto>
                    \<lparr>rec_type = ''PatientRecord'', rec_id = JString ''PAT000'',
                     rec_data = Map.empty\<rparr>];
        first = snd (createPatientRecord ''2026-11-03T10:00:00.000Z''
                   ''2026-11-03T10:00:00.000Z'' data ledger);
        second = snd (createPatientRecord ''2026-11-04T09:30:00.000Z''
                   ''2026-11-04T09:30:00.000Z'' data2 first)
    in get_prop data2 ''patientId'' = get_prop data ''patientId''
     \<and> dom second = {JString ''PAT000'', JString ''PAT001''}
     \<and> second (JString ''PAT000'') = ledger (JString ''PAT000'')
     \<and> map_option (\<lambda>r. get_prop (rec_data r) ''createdAt'') (second (JString ''PAT001''))
          = Some (JString ''2026-11-04T09:30:00.000Z'')
     \<and> map_option (\<lambda>r. get_prop (rec_data r) ''updatedAt'') (second (JString ''PAT001''))
          = Some (JString ''2026-11-04T09:30:00.000Z''))"
proof -
  let ?data = "[''patientId'' \<mapsto> (JString ''PAT001'' :: nat jsval),
                ''diagnosis'' \<mapsto> JString ''Routine Checkup'']"
  let ?data2 = "[''patientId'' \<mapsto> (JString ''PAT001'' :: nat jsval),
                 ''diagnosis'' \<mapsto> JString ''Follow-up'']"
  let ?ledger = "[JString ''PAT000'' \<mapsto>
                    \<lparr>rec_type = ''PatientRecord'', rec_id = (JString ''PAT000'' :: nat jsval),
                     rec_data = Map.empty\<rparr>]"
  let ?k = "JString ''PAT001'' :: nat jsval"
  let ?first = "snd (createPatientRecord ''2026-11-03T10:00:00.000Z''
                   ''2026-11-03T10:00:00.000Z'' ?data ?ledger)"
  let ?second = "snd (createPatientRecord ''2026-11-04T09:30:00.000Z''
                   ''2026-11-04T09:30:00.000Z'' ?data2 ?first)"
  have k: "get_prop ?data ''patientId'' = ?k" "get_prop ?data2 ''patientId'' = ?k"
    by (simp_all add: get_prop_def)
  have same: "get_prop ?data2 ''patientId'' = get_prop ?data ''patientId''"
    by (simp add: k)
  note T = mirror_put_restamps [of ?data "''2026-11-03T10:00:00.000Z''"
        "''2026-11-03T10:00:00.000Z''" ?ledger "''2026-11-04T09:30:00.000Z''"
        "''2026-11-04T09:30:00.000Z''" ?data2, THEN conjunct1, unfolded Let_def k]
  have d1: "dom ?first = insert ?k (dom ?ledger)"
    and r1: "?first |` (- {?k}) = ?ledger |` (- {?k})"
    using T by blast+
  have d2: "dom ?second = dom ?first"
    and r2: "?second |` (- {?k}) = ?first |` (- {?k})"
    and c2: "map_option (\<lambda>r. get_prop (rec_data r) ''createdAt'') (?second ?k)
          = Some (JString ''2026-11-04T09:30:00.000Z'')"
    and u2: "map_option (\<lambda>r. get_prop (rec_data r) ''updatedAt'') (?second ?k)
          = Some (JString ''2026-11-04T09:30:00.000Z'')"
    using T by blast+
  have dom: "dom ?second = {JString ''PAT000'', JString ''PAT001''}"
    unfolding d2 d1 by auto
  have "(?second |` (- {?k})) (JString ''PAT000'') = (?ledger |` (- {?k})) (JString ''PAT000'')"
    unfolding r2 r1 by (rule refl)
  then have other: "?second (JString ''PAT000'') = ?ledger (JString ''PAT000'')"
    by (simp add: restrict_map_def)
  show ?thesis
    unfolding Let_def by (intro conjI same dom other c2 u2)
qed

text \<open>
  Claim C8 as stated fails: after the second write of patient \<open>PAT001\<close> the record's
  \<open>createdAt\<close> is the time of the second write, not the original one.
\<close>

theorem createdAt_restamped_counterexample:
  "(let data = [''patientId'' \<mapsto> (JString ''PAT001'' :: nat jsval),
                ''diagnosis'' \<mapsto> JString ''Routine Checkup''];
        first = snd (createPatientRecord ''2026-11-03T10:00:00.000Z''
                   ''2026-11-03T10:00:00.000Z'' data Map.empty);
        second = snd (createPatientRecord ''2026-11-04T09:30:00.000Z''
                   ''2026-11-04T09:30:00.000Z'' data first)
    in map_option (\<lambda>r. get_prop (rec_data r) ''createdAt'') (first (JString ''PAT001''))
          = Some (JString ''2026-11-03T10:00:00.000Z'')
     \<and> map_option (\<lambda>r. get_prop (rec_data r) ''createdAt'') (second (JString ''PAT001''))
          = Some (JString ''2026-11-04T09:30:00.000Z'')
     \<and> map_option (\<lambda>r. get_prop (rec_data r) ''createdAt'') (second (JString ''PAT001''))
          \<noteq> map_option (\<lambda>r. get_prop (rec_data r) ''createdAt'') (first (JString ''PAT001'')))"
  unfolding Let_def createPatientRecord_ledger
  by (simp add: get_prop_def)

subsection \<open>C9: syncing a policy twice\<close>


lemma syncPolicyToFabric_returns:
  "fst (syncPolicyToFabric pf ns jn x d t pid pat ledger) =
     Inr (json_record jn
       \<lparr>rec_type = ''PolicyVerification'',
        rec_id = verification_id ns (json_roundtrip jn pid) (json_roundtrip jn pat),
        rec_data = verification_data pf x d t (json_roundtrip jn pid) (json_roundtrip jn pat)\<rparr>)"
  by (simp add: syncPolicyToFabric_def invokeChaincode_def
      verifyPolicyWithEthereum_def verification_id_def verification_data_def get_prop_def Let_def)





text \<open>An id that is \<open>undefined\<close> at the bridge is \<open>null\<close> at the simulator.\<close>

lemma sync_undefined_id:
  "verification_id ns (json_roundtrip jn JUndefined) (json_roundtrip jn (JString ''PAT001''))
     = JString ''VERIFICATION_null_PAT001''"
  by (simp add: verification_id_def)



end
